theory Spec2Isabelle
  imports Complex_Main "HOL-Library.Sublist" "HOL-Library.Log_Nat"
begin

section \<open>JavaScript numbers\<close>

text \<open>
  A JavaScript number is an IEEE 754 binary64 value: a finite value, given here by its
  exact rational value, one of the two infinities, or \<open>NaN\<close>. Not every rational is the
  value of a binary64 number; the operations below round their results to such values,
  whatever their operands are. The two zeros are not told apart: the handlers add ratings,
  divide by a length, test \<open>x || 0\<close> and \<open>x < 0\<close>, and none of these distinguishes
  \<open>-0\<close> from \<open>0\<close> in what is stored or sent.
\<close>

datatype number = Num rat | PosInfinity | NegInfinity | NaN

text \<open>The binary exponent of a positive rational \<open>a\<close>: \<open>2^e \<le> a < 2^(e+1)\<close>.\<close>

definition exponent :: "rat \<Rightarrow> int" where
  "exponent a = (if 1 \<le> a then bitlen \<lfloor>a\<rfloor> - 1 else - bitlen (\<lceil>1 / a\<rceil> - 1))"

text \<open>The nearest integer; of two nearest ones, the even one.\<close>

definition round_half_even :: "rat \<Rightarrow> int" where
  "round_half_even x =
     (let n = \<lfloor>x\<rfloor>; frac = x - of_int n
      in if frac < 1 / 2 then n
         else if 1 / 2 < frac then n + 1
         else if even n then n else n + 1)"

text \<open>
  The binary64 value of an exact result (round to nearest, ties to even): the magnitude is
  rounded to a multiple of its unit in the last place, which is \<open>2^(e-52)\<close> for a normal
  value and \<open>2^(-1074)\<close> for a subnormal one; a rounded magnitude of \<open>2^1024\<close> or more
  overflows to an infinity.
\<close>

definition binary64 :: "rat \<Rightarrow> number" where
  "binary64 x =
     (if x = 0 then Num 0
      else
        let a = \<bar>x\<bar>;
            q = 2 powi (max (exponent a - 52) (- 1074));
            y = of_int (round_half_even (a / q)) * q
        in if 2 ^ 1024 \<le> y then (if x < 0 then NegInfinity else PosInfinity)
           else Num (if x < 0 then - y else y))"

text \<open>The operator \<open>+\<close> on two numbers.\<close>

fun js_add :: "number \<Rightarrow> number \<Rightarrow> number" where
  "js_add (Num a) (Num b) = binary64 (a + b)"
| "js_add NaN y = NaN"
| "js_add x NaN = NaN"
| "js_add PosInfinity NegInfinity = NaN"
| "js_add NegInfinity PosInfinity = NaN"
| "js_add PosInfinity y = PosInfinity"
| "js_add NegInfinity y = NegInfinity"
| "js_add (Num a) PosInfinity = PosInfinity"
| "js_add (Num a) NegInfinity = NegInfinity"

text \<open>
  The operator \<open>/\<close> with an array length as divisor: a non-negative integer below
  \<open>2^32\<close>, which is a binary64 value exactly.
\<close>

fun js_div_length :: "number \<Rightarrow> nat \<Rightarrow> number" where
  "js_div_length NaN n = NaN"
| "js_div_length PosInfinity n = PosInfinity"
| "js_div_length NegInfinity n = NegInfinity"
| "js_div_length (Num a) n =
     (if n = 0 then (if a = 0 then NaN else if a < 0 then NegInfinity else PosInfinity)
      else binary64 (a / of_nat n))"

section \<open>Data model (index.js, lines 26-44)\<close>

text \<open>
  The two Mongoose schemas. An Organization document carries five strings. A Prompt
  document carries the organization name, the prompt text and the generated content;
  \<open>rating\<close> and \<open>feedback\<close> are absent (\<open>None\<close>) until the document is rated.
\<close>

record organization =
  orgName :: string
  brandGuide :: string
  goals :: string
  personas :: string
  stylePreferences :: string

record prompt_doc =
  p_orgName :: string
  prompt :: string
  content :: string
  rating :: "number option"
  feedback :: "string option"

text \<open>
  The data store holds the two collections. A collection is the list of its documents in
  the store's retrieval order; \<open>create\<close> appends. No handler deletes a document, so the
  position of a document in its collection identifies it (its \<open>_id\<close>).
\<close>

record store =
  organizations :: "organization list"
  prompts :: "prompt_doc list"

section \<open>Requests and responses\<close>

text \<open>
  A JSON value of a request body, as far as \<open>typeof\<close> and \<open>!x\<close> tell values apart.
  \<open>JObject\<close> stands for objects and arrays, \<open>JUndefined\<close> for a key that the body does
  not have.
\<close>

datatype jsval =
    JUndefined
  | JNull
  | JBoolean bool
  | JNumber number
  | JString string
  | JObject

fun typeof :: "jsval \<Rightarrow> string" where
  "typeof JUndefined = ''undefined''"
| "typeof JNull = ''object''"
| "typeof (JBoolean b) = ''boolean''"
| "typeof (JNumber n) = ''number''"
| "typeof (JString s) = ''string''"
| "typeof JObject = ''object''"

text \<open>
  The truth value of a JSON value in a condition: \<open>undefined\<close>, \<open>null\<close>, \<open>false\<close>,
  the zeros, \<open>NaN\<close> and the empty string are false, everything else is true. \<open>!x\<close> is
  its negation.
\<close>

fun truthy :: "jsval \<Rightarrow> bool" where
  "truthy JUndefined = False"
| "truthy JNull = False"
| "truthy (JBoolean b) = b"
| "truthy (JNumber n) = (n \<noteq> Num 0 \<and> n \<noteq> NaN)"
| "truthy (JString s) = (s \<noteq> [])"
| "truthy JObject = True"

text \<open>
  The onboarding and generation handlers are modelled on text fields that are JSON strings
  or absent: a \<open>string option\<close>, where \<open>None\<close> is a key that is absent or \<open>null\<close> and
  \<open>Some s\<close> a JSON string. On these, \<open>!x\<close> holds for \<open>None\<close> and for the empty
  string. What the store makes of other JSON values in a text field of these two handlers
  is outside the model. The rating handler is modelled on arbitrary JSON values.
\<close>

definition json_of :: "string option \<Rightarrow> jsval" where
  "json_of x = (case x of None \<Rightarrow> JUndefined | Some s \<Rightarrow> JString s)"

definition falsy :: "string option \<Rightarrow> bool" where
  "falsy x = (\<not> truthy (json_of x))"

text \<open>
  What \<open>Number.prototype.toFixed\<close> returns: a text, or, for a finite magnitude of at
  least \<open>10^21\<close>, the exponential notation of \<open>Number.prototype.toString\<close>, whose digits
  are not modelled (\<open>Exponential x\<close> stands for that text of \<open>x\<close>).
\<close>

datatype num_text = Printed string | Exponential rat

record feedback_entry =
  e_prompt :: string
  e_rating :: "number option"
  e_feedback :: "string option"

record analytics =
  totalGenerated :: nat
  averageRating :: num_text
  last5Feedbacks :: "feedback_entry list"

datatype json_body =
    Text string
  | Error string
  | Message string
  | Content string
  | Analytics analytics

record response =
  status :: nat
  body :: json_body

text \<open>The five routes of the application, each with the fields its handler reads.\<close>

datatype request =
    GetRoot
  | PostOnboard "string option" "string option" "string option" "string option" "string option"
  | PostGenerate "string option" "string option"
  | PostRate jsval jsval jsval "string option"
  | GetAnalytics string

section \<open>The collaborators: data store and language-model provider\<close>

datatype store_op =
    OrganizationCreate
  | OrganizationFindOne
  | PromptCreate
  | PromptFindOne
  | PromptSave
  | PromptFind

datatype role = System | User

record chat_request =
  model :: string
  messages :: "(role \<times> string) list"

text \<open>A completion is the list of its choices, each given by its message content.\<close>

record chat_completion =
  choices :: "string list"

text \<open>
  The environment of one request: \<open>rejects op\<close> says whether the awaited store operation
  \<open>op\<close> fails (each handler awaits each operation at most once; a rejected operation
  leaves the store as it was), and \<open>openai\<close> is the provider call, which returns an error
  (\<open>Inl\<close>) or a completion.

  \<open>cast_filter\<close> is the store's reading of a filter value that is not a string, for a
  field whose schema type is \<open>String\<close>: the condition it puts on the stored string, or
  \<open>None\<close> when it refuses the value and the query fails. The store library is not part of
  the repository, so this reading is a parameter.
\<close>

record env =
  rejects :: "store_op \<Rightarrow> bool"
  openai :: "chat_request \<Rightarrow> string + chat_completion"
  cast_filter :: "jsval \<Rightarrow> (string \<Rightarrow> bool) option"

text \<open>
  What a handler does: the response it sends, the store it leaves, and the requests it
  has sent to the provider.
\<close>

record outcome =
  response :: response
  db :: store
  sent :: "chat_request list"

definition reply :: "nat \<Rightarrow> json_body \<Rightarrow> store \<Rightarrow> chat_request list \<Rightarrow> outcome" where
  "reply code b s cs = \<lparr>response = \<lparr>status = code, body = b\<rparr>, db = s, sent = cs\<rparr>"

subsection \<open>Store operations\<close>

text \<open>\<open>Organization.findOne({ orgName })\<close>: the first document with that name.\<close>

definition Organization_find_one :: "store \<Rightarrow> string \<Rightarrow> organization option" where
  "Organization_find_one s n = List.find (\<lambda>org. orgName org = n) (organizations s)"

text \<open>The position of the first element that satisfies \<open>P\<close>.\<close>

fun findIndex :: "('a \<Rightarrow> bool) \<Rightarrow> 'a list \<Rightarrow> nat option" where
  "findIndex P [] = None"
| "findIndex P (x # xs) = (if P x then Some 0 else map_option Suc (findIndex P xs))"

text \<open>
  The condition that a filter value puts on a stored string: equality for a string, the
  store's own reading for any other value.
\<close>

definition filter_of :: "env \<Rightarrow> jsval \<Rightarrow> (string \<Rightarrow> bool) option" where
  "filter_of e v = (case v of JString str \<Rightarrow> Some (\<lambda>x. x = str) | _ \<Rightarrow> cast_filter e v)"

text \<open>
  \<open>Prompt.findOne({ orgName, prompt })\<close>: the first document that meets both conditions.
\<close>

definition Prompt_find_one ::
  "store \<Rightarrow> (string \<Rightarrow> bool) \<Rightarrow> (string \<Rightarrow> bool) \<Rightarrow> nat option" where
  "Prompt_find_one s fo fp = findIndex (\<lambda>d. fo (p_orgName d) \<and> fp (prompt d)) (prompts s)"

text \<open>\<open>Prompt.find({ orgName })\<close>: all documents of that organization, in store order.\<close>

definition Prompt_find :: "store \<Rightarrow> string \<Rightarrow> prompt_doc list" where
  "Prompt_find s n = filter (\<lambda>d. p_orgName d = n) (prompts s)"

section \<open>Number formatting\<close>

definition digit :: "nat \<Rightarrow> char" where
  "digit d = ''0123456789'' ! d"

function nat_digits :: "nat \<Rightarrow> string" where
  "nat_digits n = (if n < 10 then [digit n] else nat_digits (n div 10) @ [digit (n mod 10)])"
  by pat_completeness auto
termination
  by (relation "measure id") auto

declare nat_digits.simps [simp del]

text \<open>
  \<open>Number.prototype.toFixed(f)\<close> after ECMA-262: a value that is not finite is printed
  by \<open>toString\<close>. Otherwise the sign is split off; a magnitude of at least \<open>10^21\<close> is
  printed by \<open>toString\<close>; otherwise \<open>n\<close> is the integer for which \<open>n / 10^f\<close> is nearest
  to the exact value of the magnitude (the larger one of two), its digits are padded with
  zeros to \<open>f + 1\<close> characters and the point is put before the last \<open>f\<close> of them.
\<close>

fun toFixed :: "number \<Rightarrow> nat \<Rightarrow> num_text" where
  "toFixed NaN f = Printed ''NaN''"
| "toFixed PosInfinity f = Printed ''Infinity''"
| "toFixed NegInfinity f = Printed ''-Infinity''"
| "toFixed (Num x0) f =
     (let sgn = (if x0 < 0 then ''-'' else '''');
          x = (if x0 < 0 then - x0 else x0)
      in if x \<ge> 10 ^ 21 then Exponential x0
         else
           let n = nat \<lfloor>x * 10 ^ f + 1 / 2\<rfloor>;
               m = (if n = 0 then ''0'' else nat_digits n);
               m = (if f \<noteq> 0
                    then
                      let k = length m;
                          m = (if k \<le> f then replicate (f + 1 - k) (CHR ''0'') @ m else m);
                          k = (if k \<le> f then f + 1 else k)
                      in take (k - f) m @ ''.'' @ drop (k - f) m
                    else m)
           in Printed (sgn @ m))"

section \<open>The handlers\<close>

subsection \<open>GET /\<close>

definition get_root :: "store \<Rightarrow> outcome" where
  "get_root s = reply 200 (Text ''Welcome to AI Content Assistant API!'') s []"

subsection \<open>POST /api/onboard (lines 52-64)\<close>

definition post_onboard ::
  "env \<Rightarrow> store \<Rightarrow> string option \<Rightarrow> string option \<Rightarrow> string option \<Rightarrow> string option
     \<Rightarrow> string option \<Rightarrow> outcome" where
  "post_onboard e s orgName' brandGuide' goals' personas' stylePreferences' =
     (if falsy orgName' \<or> falsy brandGuide' \<or> falsy goals' \<or> falsy personas'
           \<or> falsy stylePreferences'
      then reply 400 (Error ''Missing required fields'') s []
      else if rejects e OrganizationCreate
      then reply 500 (Error ''Error saving organization'') s []
      else reply 200 (Message ''Organization onboarded successfully'')
             (s\<lparr>organizations := organizations s @
                   [\<lparr>orgName = the orgName', brandGuide = the brandGuide',
                     goals = the goals', personas = the personas',
                     stylePreferences = the stylePreferences'\<rparr>]\<rparr>) [])"

subsection \<open>POST /api/generate (lines 67-95)\<close>

definition systemPrompt :: "organization \<Rightarrow> string" where
  "systemPrompt org =
     ''You are a content strategist. Use the following brand details to generate helpful marketing content.''
     @ [CHR 0x0A, CHR 0x0A] @ ''Brand Guide: '' @ brandGuide org
     @ [CHR 0x0A] @ ''Goals: '' @ goals org
     @ [CHR 0x0A] @ ''Style: '' @ stylePreferences org"

definition chat_call :: "organization \<Rightarrow> string \<Rightarrow> chat_request" where
  "chat_call org p =
     \<lparr>model = ''gpt-3.5-turbo'', messages = [(System, systemPrompt org), (User, p)]\<rparr>"

text \<open>
  Everything after the presence check runs inside \<open>try\<close>: a rejected store operation, a
  provider error and a completion without choices (\<open>choices[0]\<close> is \<open>undefined\<close>, reading
  its \<open>message\<close> throws) all end in the 500 of the \<open>catch\<close> block.
\<close>

definition post_generate :: "env \<Rightarrow> store \<Rightarrow> string option \<Rightarrow> string option \<Rightarrow> outcome" where
  "post_generate e s orgName' prompt' =
     (if falsy orgName' \<or> falsy prompt'
      then reply 400 (Error ''orgName and prompt are required'') s []
      else if rejects e OrganizationFindOne
      then reply 500 (Error ''Error generating content'') s []
      else
        case Organization_find_one s (the orgName') of
          None \<Rightarrow> reply 404 (Error ''Organization not found'') s []
        | Some org \<Rightarrow>
            let call = chat_call org (the prompt') in
            (case openai e call of
               Inl err \<Rightarrow> reply 500 (Error ''Error generating content'') s [call]
             | Inr completion \<Rightarrow>
                 (case choices completion of
                    [] \<Rightarrow> reply 500 (Error ''Error generating content'') s [call]
                  | content' # _ \<Rightarrow>
                      if rejects e PromptCreate
                      then reply 500 (Error ''Error generating content'') s [call]
                      else reply 200 (Content content')
                             (s\<lparr>prompts := prompts s @
                                   [\<lparr>p_orgName = the orgName', prompt = the prompt',
                                     content = content', rating = None,
                                     feedback = None\<rparr>]\<rparr>) [call])))"

subsection \<open>POST /api/rate (lines 98-116)\<close>

text \<open>
  The lookup fails, and the \<open>catch\<close> block answers 500, when the store operation is
  rejected or the store refuses one of the two filter values.
\<close>

definition post_rate ::
  "env \<Rightarrow> store \<Rightarrow> jsval \<Rightarrow> jsval \<Rightarrow> jsval \<Rightarrow> string option \<Rightarrow> outcome" where
  "post_rate e s orgName' prompt' rating' feedback' =
     (if \<not> truthy orgName' \<or> \<not> truthy prompt' \<or> typeof rating' \<noteq> ''number''
      then reply 400 (Error ''Missing required fields or invalid rating'') s []
      else if rejects e PromptFindOne
      then reply 500 (Error ''Error saving feedback'') s []
      else
        case (filter_of e orgName', filter_of e prompt') of
          (Some fo, Some fp) \<Rightarrow>
            (case Prompt_find_one s fo fp of
               None \<Rightarrow> reply 404 (Error ''Prompt not found for this organization'') s []
             | Some i \<Rightarrow>
                 let entry = (prompts s ! i)
                       \<lparr>rating := (case rating' of JNumber r \<Rightarrow> Some r | _ \<Rightarrow> None),
                        feedback := feedback'\<rparr>
                 in if rejects e PromptSave
                    then reply 500 (Error ''Error saving feedback'') s []
                    else reply 200 (Message ''Feedback recorded'')
                           (s\<lparr>prompts := (prompts s)[i := entry]\<rparr>) [])
        | _ \<Rightarrow> reply 500 (Error ''Error saving feedback'') s [])"

subsection \<open>GET /api/analytics/:orgName (lines 119-139)\<close>

text \<open>\<open>p.rating || 0\<close>: an absent rating, a zero and \<open>NaN\<close> all count 0.\<close>

definition rating_or_0 :: "prompt_doc \<Rightarrow> number" where
  "rating_or_0 p =
     (case rating p of
        None \<Rightarrow> Num 0
      | Some r \<Rightarrow> if truthy (JNumber r) then r else Num 0)"

text \<open>
  \<open>prompts.reduce((sum, p) => sum + (p.rating || 0), 0) / prompts.length\<close>: the ratings
  are added from the left, starting from 0, each sum rounded to binary64, and the total is
  divided by the length, rounded again.
\<close>

definition avgRating :: "prompt_doc list \<Rightarrow> number" where
  "avgRating ps = js_div_length (foldl (\<lambda>sum p. js_add sum (rating_or_0 p)) (Num 0) ps) (length ps)"

text \<open>\<open>slice(-5)\<close>: the last five elements, or all of them when there are fewer.\<close>

definition slice_last :: "nat \<Rightarrow> 'a list \<Rightarrow> 'a list" where
  "slice_last k xs = drop (length xs - k) xs"

definition entry_of :: "prompt_doc \<Rightarrow> feedback_entry" where
  "entry_of p = \<lparr>e_prompt = prompt p, e_rating = rating p, e_feedback = feedback p\<rparr>"

definition get_analytics :: "env \<Rightarrow> store \<Rightarrow> string \<Rightarrow> outcome" where
  "get_analytics e s orgName' =
     (if rejects e PromptFind
      then reply 500 (Error ''Error fetching analytics'') s []
      else
        let ps = Prompt_find s orgName' in
        if length ps = 0
        then reply 404 (Error ''No data found for this organization'') s []
        else reply 200
               (Analytics \<lparr>totalGenerated = length ps,
                           averageRating = toFixed (avgRating ps) 2,
                           last5Feedbacks = map entry_of (slice_last 5 ps)\<rparr>) s [])"

subsection \<open>The router\<close>

fun handle :: "env \<Rightarrow> store \<Rightarrow> request \<Rightarrow> outcome" where
  "handle e s GetRoot = get_root s"
| "handle e s (PostOnboard n b g p sp) = post_onboard e s n b g p sp"
| "handle e s (PostGenerate n p) = post_generate e s n p"
| "handle e s (PostRate n p r f) = post_rate e s n p r f"
| "handle e s (GetAnalytics n) = get_analytics e s n"

text \<open>A run of the server: the requests are handled one after the other.\<close>

fun run :: "store \<Rightarrow> (env \<times> request) list \<Rightarrow> store" where
  "run s [] = s"
| "run s ((e, r) # rs) = run (db (handle e s r)) rs"

section \<open>Reference definitions and sample data\<close>

text \<open>
  Reading a text as a number with exactly two decimal places: an optional minus sign, one
  or more decimal digits, a point and two decimal digits. The result is the value that
  the text denotes, or \<open>None\<close> when the text does not have this form.
\<close>

definition digit_value :: "char \<Rightarrow> nat option" where
  "digit_value =
     map_of [(CHR ''0'', 0), (CHR ''1'', 1), (CHR ''2'', 2), (CHR ''3'', 3), (CHR ''4'', 4),
             (CHR ''5'', 5), (CHR ''6'', 6), (CHR ''7'', 7), (CHR ''8'', 8), (CHR ''9'', 9)]"

fun digits_value :: "nat \<Rightarrow> string \<Rightarrow> nat option" where
  "digits_value acc [] = Some acc"
| "digits_value acc (c # cs) =
     (case digit_value c of None \<Rightarrow> None | Some d \<Rightarrow> digits_value (10 * acc + d) cs)"

definition two_decimal_value :: "string \<Rightarrow> rat option" where
  "two_decimal_value t =
     (let negative = (take 1 t = ''-'');
          u = (if negative then drop 1 t else t);
          whole = take (length u - 3) u;
          point = take 1 (drop (length u - 3) u);
          cents = drop (length u - 2) u
      in if length u < 4 \<or> point \<noteq> ''.'' then None
         else
           case (digits_value 0 whole, digits_value 0 cents) of
             (Some w, Some c) \<Rightarrow>
               Some ((if negative then - 1 else 1) * (of_nat w + of_nat c / 100))
           | _ \<Rightarrow> None)"

text \<open>A value rounded to the nearest hundredth, a tie away from zero.\<close>

definition nearest_hundredth :: "rat \<Rightarrow> rat" where
  "nearest_hundredth x = (if x < 0 then - 1 else 1) * of_int \<lfloor>\<bar>x\<bar> * 100 + 1 / 2\<rfloor> / 100"

text \<open>The rating of a document where it is set, and 0 where it is not.\<close>

definition rating_if_set :: "prompt_doc \<Rightarrow> number" where
  "rating_if_set d = (case rating d of None \<Rightarrow> Num 0 | Some r \<Rightarrow> r)"

text \<open>
  The mean as binary64 arithmetic computes it: the values are added one after the other
  from 0 and the sum is divided by their number, each result rounded to binary64.
\<close>

definition binary64_mean :: "number list \<Rightarrow> number" where
  "binary64_mean xs = js_div_length (foldl js_add (Num 0) xs) (length xs)"

text \<open>The arithmetic mean of exact values.\<close>

definition arithmetic_mean :: "rat list \<Rightarrow> rat" where
  "arithmetic_mean xs = sum_list xs / of_nat (length xs)"

text \<open>A store with one organization and three generations, and a working environment.\<close>

definition acme :: organization where
  "acme = \<lparr>orgName = ''acme'', brandGuide = ''bold'', goals = ''grow'',
            personas = ''devs'', stylePreferences = ''short''\<rparr>"

definition gen :: "string \<Rightarrow> number option \<Rightarrow> prompt_doc" where
  "gen p r = \<lparr>p_orgName = ''acme'', prompt = p, content = ''text'', rating = r,
              feedback = None\<rparr>"

definition demo_store :: store where
  "demo_store = \<lparr>organizations = [acme],
                  prompts = [gen ''a'' (Some (Num 4)), gen ''b'' None, gen ''c'' (Some (Num 2))]\<rparr>"

definition demo_env :: env where
  "demo_env = \<lparr>rejects = (\<lambda>op. False), openai = (\<lambda>call. Inr \<lparr>choices = [''T'']\<rparr>),
                cast_filter = (\<lambda>v. None)\<rparr>"

text \<open>A store whose only Prompt has a rating of \<open>10^21\<close>.\<close>

definition huge_store :: store where
  "huge_store = \<lparr>organizations = [acme], prompts = [gen ''a'' (Some (Num (10 ^ 21)))]\<rparr>"

text \<open>A store whose three ratings are \<open>10^16\<close>, 1 and \<open>-10^16\<close>.\<close>

definition cancelling_store :: store where
  "cancelling_store =
     \<lparr>organizations = [acme],
      prompts = [gen ''a'' (Some (Num (10 ^ 16))), gen ''b'' (Some (Num 1)),
                 gen ''c'' (Some (Num (- (10 ^ 16))))]\<rparr>"

text \<open>A store with forty Prompts, of which only the first is rated, with 3.\<close>

definition forty_store :: store where
  "forty_store =
     \<lparr>organizations = [acme],
      prompts = gen ''a'' (Some (Num 3)) # replicate 39 (gen ''b'' None)\<rparr>"

text \<open>A store whose only Prompt has been rated, with feedback.\<close>

definition rated_store :: store where
  "rated_store = \<lparr>organizations = [acme],
                   prompts = [(gen ''a'' (Some (Num 1)))\<lparr>feedback := Some ''nice''\<rparr>]\<rparr>"

section \<open>Facts about binary64 rounding\<close>

lemma overflow_test: "(2 ^ 1024 \<le> y) = (1024 < bitlen \<lfloor>y\<rfloor>)" for y :: rat
proof -
  have "(2 ^ 1024 \<le> y) = (2 ^ 1024 \<le> \<lfloor>y\<rfloor>)"
    using le_floor_iff [of "2 ^ 1024" y] by simp
  also have "\<dots> = (1025 \<le> bitlen \<lfloor>y\<rfloor>)"
    using bitlen_ge_iff_power [of 1025 "\<lfloor>y\<rfloor>"] by simp
  finally show ?thesis
    by auto
qed

lemma binary64_code [code]:
  "binary64 x =
     (if x = 0 then Num 0
      else
        let a = \<bar>x\<bar>;
            q = 2 powi (max (exponent a - 52) (- 1074));
            y = of_int (round_half_even (a / q)) * q
        in if 1024 < bitlen \<lfloor>y\<rfloor> then (if x < 0 then NegInfinity else PosInfinity)
           else Num (if x < 0 then - y else y))"
  unfolding binary64_def overflow_test ..

lemma exponent_bounds:
  assumes "0 < a"
  shows "2 powi exponent a \<le> a \<and> a < 2 powi (exponent a + 1)"
proof (cases "1 \<le> a")
  case True
  then have pos: "0 < \<lfloor>a\<rfloor>"
    by simp
  let ?b = "bitlen \<lfloor>a\<rfloor>"
  from pos have b1: "1 \<le> ?b"
    using bitlen_ge_iff_power [of 1 "\<lfloor>a\<rfloor>"] by simp
  from bitlen_bounds [OF pos] have lo: "2 ^ nat (?b - 1) \<le> \<lfloor>a\<rfloor>" and hi: "\<lfloor>a\<rfloor> < 2 ^ nat ?b"
    by simp_all
  from lo have "(2::rat) ^ nat (?b - 1) \<le> of_int \<lfloor>a\<rfloor>"
    by (metis of_int_le_iff of_int_numeral of_int_power)
  also have "\<dots> \<le> a"
    by simp
  finally have 1: "2 powi (?b - 1) \<le> a"
    using b1 by (simp add: power_int_def)
  from hi have "\<lfloor>a\<rfloor> + 1 \<le> 2 ^ nat ?b"
    by simp
  then have "of_int (\<lfloor>a\<rfloor> + 1) \<le> (2::rat) ^ nat ?b"
    by (metis of_int_le_iff of_int_numeral of_int_power)
  moreover have "a < of_int (\<lfloor>a\<rfloor> + 1)"
    by linarith
  ultimately have 2: "a < 2 powi ?b"
    using b1 by (simp add: power_int_def)
  from 1 2 True show ?thesis
    by (simp add: exponent_def)
next
  case False
  with assms have a: "0 < a" "a < 1"
    by simp_all
  let ?c = "\<lceil>1 / a\<rceil>"
  let ?b = "bitlen (?c - 1)"
  from a have inv: "1 < 1 / a"
    by simp
  then have c2: "2 \<le> ?c"
    by (simp add: le_ceiling_iff)
  then have pos: "0 < ?c - 1"
    by simp
  from bitlen_bounds [OF pos] have lo: "2 ^ nat (?b - 1) \<le> ?c - 1" and hi: "?c - 1 < 2 ^ nat ?b"
    by simp_all
  have b0: "0 \<le> ?b"
    by (rule bitlen_nonneg)
  from pos have b1: "1 \<le> ?b"
    using bitlen_ge_iff_power [of 1 "?c - 1"] by simp
  have neg: "(2::rat) powi (- n) = 1 / 2 ^ nat n" if "0 \<le> n" for n
    using that by (simp add: power_int_minus power_int_nonneg_exp inverse_eq_divide)
  from hi have "?c \<le> 2 ^ nat ?b"
    by simp
  then have "of_int ?c \<le> (2::rat) ^ nat ?b"
    by (metis of_int_le_iff of_int_numeral of_int_power)
  moreover have "1 / a \<le> of_int ?c"
    by simp
  ultimately have "1 / a \<le> 2 ^ nat ?b"
    by linarith
  then have "1 / 2 ^ nat ?b \<le> a"
    using a(1) by (simp add: pos_divide_le_eq mult.commute)
  then have 1: "2 powi (- ?b) \<le> a"
    by (simp only: neg [OF b0])
  from lo have "(2::rat) ^ nat (?b - 1) \<le> of_int (?c - 1)"
    by (metis of_int_le_iff of_int_numeral of_int_power)
  moreover have "of_int (?c - 1) < 1 / a"
    by linarith
  ultimately have "2 ^ nat (?b - 1) < 1 / a"
    by linarith
  then have "a < 1 / 2 ^ nat (?b - 1)"
    using a(1) by (simp add: pos_less_divide_eq mult.commute)
  moreover have "(2::rat) powi (- (?b - 1)) = 1 / 2 ^ nat (?b - 1)"
    using b1 by (intro neg) simp
  ultimately have "a < 2 powi (- (?b - 1))"
    by (simp only:)
  then have 2: "a < 2 powi (- ?b + 1)"
    by (simp add: algebra_simps)
  from 1 2 False show ?thesis
    by (simp add: exponent_def)
qed

lemma binary64_samples:
  "binary64 (1 / 10) = Num (3602879701896397 / 2 ^ 55)"
  "binary64 (3 / 40) = Num (5404319552844595 / 2 ^ 56)"
  "binary64 (10 ^ 16 + 1) = Num (10 ^ 16)"
  "binary64 6 = Num 6"
  by code_simp+

section \<open>Presence of a field\<close>

lemma falsy_Some [simp]: "falsy (Some x) \<longleftrightarrow> x = []"
  by (simp add: falsy_def json_of_def)

lemma falsy_None [simp]: "falsy None"
  by (simp add: falsy_def json_of_def)

lemma not_falsyE:
  assumes "\<not> falsy x"
  obtains v where "x = Some v" and "v \<noteq> []"
  using assms by (cases x) auto

section \<open>Facts about the sample data\<close>


lemma demo_env_works: "\<not> rejects demo_env op"
  by (simp add: demo_env_def)

section \<open>Onboarding\<close>

text \<open>
  Claim C8. An onboarding request in which one of the five fields \<open>orgName\<close>,
  \<open>brandGuide\<close>, \<open>goals\<close>, \<open>personas\<close>, \<open>stylePreferences\<close> is missing or empty
  is answered with 400, and the store is left as it was: no Organization is created.
\<close>

theorem onboard_missing_field_400:
  assumes "x \<in> {orgName', brandGuide', goals', personas', stylePreferences'}"
    and "x = None \<or> x = Some ''''"
  shows "status (response (post_onboard e s orgName' brandGuide' goals' personas'
                             stylePreferences')) = 400
         \<and> db (post_onboard e s orgName' brandGuide' goals' personas' stylePreferences') = s"
proof -
  from assms(2) have "falsy x"
    by auto
  with assms(1) have "falsy orgName' \<or> falsy brandGuide' \<or> falsy goals' \<or> falsy personas'
      \<or> falsy stylePreferences'"
    by auto
  then show ?thesis
    by (simp add: post_onboard_def reply_def)
qed

theorem onboard_missing_field_400_witness:
  "status (response (post_onboard demo_env demo_store (Some ''zeta'') (Some ''guide'')
       (Some '''') None (Some ''plain''))) = 400
   \<and> db (post_onboard demo_env demo_store (Some ''zeta'') (Some ''guide'')
       (Some '''') None (Some ''plain'')) = demo_store"
  using onboard_missing_field_400 [of "Some ''''" "Some ''zeta''" "Some ''guide''"
      "Some ''''" None "Some ''plain''" demo_env demo_store]
  by simp

lemma handle_organizations:
  "prefix (organizations s) (organizations (db (handle e s r)))"
proof (cases r)
  case GetRoot
  then show ?thesis by (simp add: get_root_def reply_def)
next
  case (PostOnboard n b g p sp)
  then show ?thesis by (simp add: post_onboard_def reply_def)
next
  case (PostGenerate n p)
  then show ?thesis
    by (simp add: post_generate_def reply_def Let_def split: option.splits sum.splits list.splits)
next
  case (PostRate n p r f)
  then show ?thesis
    by (simp add: post_rate_def reply_def Let_def split: option.splits)
next
  case (GetAnalytics n)
  then show ?thesis by (simp add: get_analytics_def reply_def Let_def)
qed

lemma run_organizations: "prefix (organizations s) (organizations (run s rs))"
proof (induction rs arbitrary: s)
  case Nil
  then show ?case by simp
next
  case (Cons a rs)
  obtain e r where a: "a = (e, r)" by (cases a)
  have "prefix (organizations s) (organizations (db (handle e s r)))"
    by (rule handle_organizations)
  also have "prefix \<dots> (organizations (run (db (handle e s r)) rs))"
    by (rule Cons.IH)
  finally show ?case using a by simp
qed

text \<open>
  Claim C5. An onboarding request that is answered with 200 has added exactly one
  Organization to the store and changed nothing else. The new record carries the five
  values of the request, each of them a non-empty string. Whatever requests are handled
  afterwards, the Organizations of the store still begin with the records that were
  there, the new one included: no handler updates or deletes an Organization.
\<close>

theorem onboard_success_one_organization:
  assumes "status (response (post_onboard e s orgName' brandGuide' goals' personas'
                               stylePreferences')) = 200"
  shows "\<exists>org. db (post_onboard e s orgName' brandGuide' goals' personas' stylePreferences')
             = s\<lparr>organizations := organizations s @ [org]\<rparr>
           \<and> orgName' = Some (orgName org) \<and> brandGuide' = Some (brandGuide org)
           \<and> goals' = Some (goals org) \<and> personas' = Some (personas org)
           \<and> stylePreferences' = Some (stylePreferences org)
           \<and> orgName org \<noteq> '''' \<and> brandGuide org \<noteq> '''' \<and> goals org \<noteq> ''''
           \<and> personas org \<noteq> '''' \<and> stylePreferences org \<noteq> ''''
           \<and> (\<forall>rs. prefix (organizations s @ [org])
                 (organizations (run (db (post_onboard e s orgName' brandGuide' goals'
                    personas' stylePreferences')) rs)))"
proof -
  let ?out = "post_onboard e s orgName' brandGuide' goals' personas' stylePreferences'"
  from assms have valid: "\<not> falsy orgName'" "\<not> falsy brandGuide'" "\<not> falsy goals'"
    "\<not> falsy personas'" "\<not> falsy stylePreferences'"
    and ok: "\<not> rejects e OrganizationCreate"
    by (auto simp: post_onboard_def reply_def split: if_splits)
  from valid obtain n b g p sp where fields: "orgName' = Some n" "brandGuide' = Some b"
    "goals' = Some g" "personas' = Some p" "stylePreferences' = Some sp"
    and nonempty: "n \<noteq> []" "b \<noteq> []" "g \<noteq> []" "p \<noteq> []" "sp \<noteq> []"
    by (auto elim!: not_falsyE)
  let ?org = "\<lparr>orgName = n, brandGuide = b, goals = g, personas = p, stylePreferences = sp\<rparr>"
  have db: "db ?out = s\<lparr>organizations := organizations s @ [?org]\<rparr>"
    using fields nonempty ok by (simp add: post_onboard_def reply_def)
  have "prefix (organizations s @ [?org]) (organizations (run (db ?out) rs))" for rs
    using run_organizations [of "db ?out" rs] by (simp add: db)
  with db fields nonempty show ?thesis
    by (intro exI [of _ ?org]) simp
qed

theorem onboard_success_one_organization_witness:
  "status (response (post_onboard demo_env demo_store (Some ''zeta'') (Some ''guide'')
       (Some ''reach'') (Some ''users'') (Some ''plain''))) = 200
   \<and> (\<exists>org. db (post_onboard demo_env demo_store (Some ''zeta'') (Some ''guide'')
          (Some ''reach'') (Some ''users'') (Some ''plain''))
            = demo_store\<lparr>organizations := organizations demo_store @ [org]\<rparr>
        \<and> orgName org = ''zeta'' \<and> personas org = ''users'')"
proof -
  have ok: "status (response (post_onboard demo_env demo_store (Some ''zeta'') (Some ''guide'')
       (Some ''reach'') (Some ''users'') (Some ''plain''))) = 200"
    by (simp add: post_onboard_def reply_def demo_env_def)
  from onboard_success_one_organization [OF ok] ok show ?thesis
    by auto
qed

section \<open>Generation\<close>

lemma Organization_find_one_None:
  "Organization_find_one s n = None \<longleftrightarrow> (\<forall>org \<in> set (organizations s). orgName org \<noteq> n)"
  by (auto simp: Organization_find_one_def find_None_iff)

lemma Organization_find_one_Some:
  "Organization_find_one s n = Some org \<Longrightarrow> org \<in> set (organizations s) \<and> orgName org = n"
  by (auto simp: Organization_find_one_def find_Some_iff)

text \<open>
  Claim C7. A generation request with both fields present (non-empty) whose \<open>orgName\<close>
  is the name of no Organization in the store is answered with 404, provided the lookup
  itself does not fail; the store is left as it was (no Prompt is created) and the
  provider is not called.
\<close>

theorem generate_unknown_org_404:
  assumes "n \<noteq> ''''" and "p \<noteq> ''''"
    and "\<forall>org \<in> set (organizations s). orgName org \<noteq> n"
    and "\<not> rejects e OrganizationFindOne"
  shows "status (response (post_generate e s (Some n) (Some p))) = 404
         \<and> db (post_generate e s (Some n) (Some p)) = s
         \<and> sent (post_generate e s (Some n) (Some p)) = []"
proof -
  from assms(3) have "Organization_find_one s n = None"
    by (simp add: Organization_find_one_None)
  with assms(1,2,4) show ?thesis
    by (simp add: post_generate_def reply_def)
qed

theorem generate_unknown_org_404_witness:
  "status (response (post_generate demo_env demo_store (Some ''zeta'') (Some ''hello''))) = 404
   \<and> db (post_generate demo_env demo_store (Some ''zeta'') (Some ''hello'')) = demo_store
   \<and> sent (post_generate demo_env demo_store (Some ''zeta'') (Some ''hello'')) = []"
  using generate_unknown_org_404 [of "''zeta''" "''hello''" demo_store demo_env]
  by (simp add: demo_store_def demo_env_def acme_def)

text \<open>
  Claim C1. A generation request with both fields present (non-empty), for which the
  lookup finds the Organization \<open>org\<close> of that name and the provider call succeeds with
  a completion whose first choice is the text \<open>T\<close>, is answered with 200 and the body
  \<open>{content: T}\<close>, provided the two store operations do not fail. The store afterwards is
  the store before with exactly one Prompt appended: it has the request's \<open>orgName\<close> and
  \<open>prompt\<close>, the content \<open>T\<close>, and neither rating nor feedback.
\<close>

theorem generate_success_200:
  assumes "n \<noteq> ''''" and "p \<noteq> ''''"
    and "Organization_find_one s n = Some org"
    and "openai e (chat_call org p) = Inr completion"
    and "choices completion = T # rest"
    and "\<not> rejects e OrganizationFindOne" and "\<not> rejects e PromptCreate"
  shows "response (post_generate e s (Some n) (Some p)) = \<lparr>status = 200, body = Content T\<rparr>
         \<and> db (post_generate e s (Some n) (Some p)) =
             s\<lparr>prompts := prompts s @
                 [\<lparr>p_orgName = n, prompt = p, content = T, rating = None, feedback = None\<rparr>]\<rparr>"
  using assms by (simp add: post_generate_def reply_def)

theorem generate_success_200_witness:
  "Organization_find_one demo_store ''acme'' = Some acme
   \<and> openai demo_env (chat_call acme ''hello'') = Inr \<lparr>choices = [''T'']\<rparr>
   \<and> response (post_generate demo_env demo_store (Some ''acme'') (Some ''hello'')) =
       \<lparr>status = 200, body = Content ''T''\<rparr>
   \<and> db (post_generate demo_env demo_store (Some ''acme'') (Some ''hello'')) =
       demo_store\<lparr>prompts := prompts demo_store @
         [\<lparr>p_orgName = ''acme'', prompt = ''hello'', content = ''T'', rating = None,
           feedback = None\<rparr>]\<rparr>"
proof -
  have found: "Organization_find_one demo_store ''acme'' = Some acme"
    by (simp add: Organization_find_one_def demo_store_def acme_def)
  have answer: "openai demo_env (chat_call acme ''hello'') = Inr \<lparr>choices = [''T'']\<rparr>"
    by (simp add: demo_env_def)
  have ok: "\<not> rejects demo_env OrganizationFindOne" "\<not> rejects demo_env PromptCreate"
    by (simp_all add: demo_env_def)
  from generate_success_200 [of "''acme''" "''hello''" demo_store acme demo_env
      "\<lparr>choices = [''T'']\<rparr>" "''T''" "[]"]
  show ?thesis
    using found answer ok by simp
qed

text \<open>
  Claim C3. Every request that the generation handler sends to the provider is the only
  one it sends, names the fixed model, and consists of two messages: the system
  instruction, which is the fixed template filled with the \<open>brandGuide\<close>, \<open>goals\<close> and
  \<open>stylePreferences\<close> of the Organization that the lookup found, and the user's prompt.
  The \<open>personas\<close> of the Organization have no part in it: the request is the same
  whatever they are.
\<close>

theorem generate_system_instruction:
  assumes "call \<in> set (sent (post_generate e s orgName' prompt'))"
  shows "\<exists>n p org. orgName' = Some n \<and> prompt' = Some p
           \<and> Organization_find_one s n = Some org
           \<and> sent (post_generate e s orgName' prompt') = [call]
           \<and> model call = ''gpt-3.5-turbo''
           \<and> messages call =
               [(System,
                 ''You are a content strategist. Use the following brand details to generate helpful marketing content.''
                 @ [CHR 0x0A, CHR 0x0A] @ ''Brand Guide: '' @ brandGuide org
                 @ [CHR 0x0A] @ ''Goals: '' @ goals org
                 @ [CHR 0x0A] @ ''Style: '' @ stylePreferences org),
                (User, p)]
           \<and> (\<forall>x. chat_call (org\<lparr>personas := x\<rparr>) p = call)"
proof -
  from assms have valid: "\<not> falsy orgName'" "\<not> falsy prompt'"
    by (auto simp: post_generate_def reply_def split: if_splits)
  then obtain n p where np: "orgName' = Some n" "prompt' = Some p"
    by (auto elim!: not_falsyE)
  from assms np obtain org where org: "Organization_find_one s n = Some org"
    by (cases "Organization_find_one s n")
      (auto simp: post_generate_def reply_def split: if_splits)
  from assms np org have "sent (post_generate e s orgName' prompt') = [chat_call org p]"
    by (auto simp: post_generate_def reply_def Let_def split: if_splits sum.splits list.splits)
  with assms have "call = chat_call org p"
    and "sent (post_generate e s orgName' prompt') = [call]"
    by auto
  with np org show ?thesis
    by (simp add: chat_call_def systemPrompt_def)
qed

theorem generate_system_instruction_witness:
  "chat_call acme ''hello''
     \<in> set (sent (post_generate demo_env demo_store (Some ''acme'') (Some ''hello'')))
   \<and> (\<exists>org. Organization_find_one demo_store ''acme'' = Some org
        \<and> messages (chat_call acme ''hello'') =
            [(System,
              ''You are a content strategist. Use the following brand details to generate helpful marketing content.''
              @ [CHR 0x0A, CHR 0x0A] @ ''Brand Guide: '' @ brandGuide org
              @ [CHR 0x0A] @ ''Goals: '' @ goals org
              @ [CHR 0x0A] @ ''Style: '' @ stylePreferences org),
             (User, ''hello'')])"
proof -
  have "sent (post_generate demo_env demo_store (Some ''acme'') (Some ''hello''))
          = [chat_call acme ''hello'']"
    by (simp add: post_generate_def reply_def Organization_find_one_def demo_store_def
        demo_env_def acme_def)
  then have sent: "chat_call acme ''hello''
      \<in> set (sent (post_generate demo_env demo_store (Some ''acme'') (Some ''hello'')))"
    by simp
  from generate_system_instruction [OF sent] sent show ?thesis
    by auto
qed

section \<open>Rating\<close>

lemma findIndex_None: "findIndex P xs = None \<longleftrightarrow> (\<forall>x \<in> set xs. \<not> P x)"
  by (induction xs) auto

lemma findIndex_Some:
  "findIndex P xs = Some i \<longleftrightarrow> i < length xs \<and> P (xs ! i) \<and> (\<forall>j<i. \<not> P (xs ! j))"
proof (induction xs arbitrary: i)
  case Nil
  then show ?case by simp
next
  case (Cons x xs)
  show ?case
  proof (cases "P x")
    case True
    then show ?thesis
      by (cases i) auto
  next
    case False
    show ?thesis
    proof (cases i)
      case 0
      with False show ?thesis by auto
    next
      case (Suc k)
      have "(\<forall>j<Suc k. \<not> P ((x # xs) ! j)) \<longleftrightarrow> (\<forall>j<k. \<not> P (xs ! j))"
        using False by (auto simp: less_Suc_eq_0_disj)
      with Suc False Cons.IH [of k] show ?thesis
        by auto
    qed
  qed
qed

lemma Prompt_find_one_None:
  "Prompt_find_one s fo fp = None
     \<longleftrightarrow> (\<forall>d \<in> set (prompts s). \<not> (fo (p_orgName d) \<and> fp (prompt d)))"
  by (simp add: Prompt_find_one_def findIndex_None)

lemma Prompt_find_one_Some:
  "Prompt_find_one s fo fp = Some i
     \<longleftrightarrow> i < length (prompts s)
         \<and> (fo (p_orgName (prompts s ! i)) \<and> fp (prompt (prompts s ! i)))
         \<and> (\<forall>j<i. \<not> (fo (p_orgName (prompts s ! j)) \<and> fp (prompt (prompts s ! j))))"
  by (simp add: Prompt_find_one_def findIndex_Some)

lemma filter_of_JString [simp]: "filter_of e (JString n) = Some (\<lambda>x. x = n)"
  by (simp add: filter_of_def)

lemma typeof_number: "typeof v = ''number'' \<longleftrightarrow> (\<exists>r. v = JNumber r)"
  by (cases v) auto

lemma not_truthy:
  "\<not> truthy v \<longleftrightarrow>
     v \<in> {JUndefined, JNull, JBoolean False, JNumber (Num 0), JNumber NaN, JString ''''}"
  by (cases v) auto

text \<open>
  Claim C6, with the presence test as the code has it. The rating handler answers 400
  exactly when \<open>orgName\<close> or \<open>prompt\<close> is absent, \<open>null\<close>, \<open>false\<close>, zero, \<open>NaN\<close>
  or the empty string, or \<open>rating\<close> is not a number. A request that passes this
  validation is answered with 404 when the lookup does not fail and no Prompt in the store
  meets the two conditions that the store reads from \<open>orgName\<close> and \<open>prompt\<close>; for two
  strings these conditions are equality, so the answer is 404 when no Prompt has exactly
  that pair. Whenever the answer is 400 or 404, the store is left as it was.

  The list of values is needed: a request with \<open>orgName\<close> 0, a prompt and a numeric rating
  has nothing missing and is answered with 400, as the evaluation after the theorem shows.
\<close>

theorem rate_400_404:
  "(status (response (post_rate e s orgName' prompt' rating' feedback')) = 400
      \<longleftrightarrow> orgName' \<in> {JUndefined, JNull, JBoolean False, JNumber (Num 0), JNumber NaN,
                       JString ''''}
          \<or> prompt' \<in> {JUndefined, JNull, JBoolean False, JNumber (Num 0), JNumber NaN,
                        JString ''''}
          \<or> (\<forall>r. rating' \<noteq> JNumber r))
   \<and> (\<forall>fo fp r. truthy orgName' \<and> truthy prompt' \<and> rating' = JNumber r
          \<and> \<not> rejects e PromptFindOne
          \<and> filter_of e orgName' = Some fo \<and> filter_of e prompt' = Some fp
          \<and> (\<forall>d \<in> set (prompts s). \<not> (fo (p_orgName d) \<and> fp (prompt d)))
        \<longrightarrow> status (response (post_rate e s orgName' prompt' rating' feedback')) = 404)
   \<and> (\<forall>n p r. orgName' = JString n \<and> n \<noteq> '''' \<and> prompt' = JString p \<and> p \<noteq> ''''
          \<and> rating' = JNumber r \<and> \<not> rejects e PromptFindOne
          \<and> (\<forall>d \<in> set (prompts s). \<not> (p_orgName d = n \<and> prompt d = p))
        \<longrightarrow> status (response (post_rate e s orgName' prompt' rating' feedback')) = 404)
   \<and> (status (response (post_rate e s orgName' prompt' rating' feedback')) \<in> {400, 404}
        \<longrightarrow> db (post_rate e s orgName' prompt' rating' feedback') = s)"
proof (intro conjI allI impI)
  let ?invalid = "\<not> truthy orgName' \<or> \<not> truthy prompt' \<or> typeof rating' \<noteq> ''number''"
  have "status (response (post_rate e s orgName' prompt' rating' feedback')) = 400
      \<longleftrightarrow> ?invalid"
    by (simp add: post_rate_def reply_def Let_def split: option.splits)
  then show "status (response (post_rate e s orgName' prompt' rating' feedback')) = 400
      \<longleftrightarrow> orgName' \<in> {JUndefined, JNull, JBoolean False, JNumber (Num 0), JNumber NaN,
                       JString ''''}
          \<or> prompt' \<in> {JUndefined, JNull, JBoolean False, JNumber (Num 0), JNumber NaN,
                        JString ''''}
          \<or> (\<forall>r. rating' \<noteq> JNumber r)"
    by (simp only: not_truthy typeof_number) blast
next
  fix fo fp r
  assume "truthy orgName' \<and> truthy prompt' \<and> rating' = JNumber r
          \<and> \<not> rejects e PromptFindOne
          \<and> filter_of e orgName' = Some fo \<and> filter_of e prompt' = Some fp
          \<and> (\<forall>d \<in> set (prompts s). \<not> (fo (p_orgName d) \<and> fp (prompt d)))"
  then show "status (response (post_rate e s orgName' prompt' rating' feedback')) = 404"
    using Prompt_find_one_None [of s fo fp]
    by (simp add: post_rate_def reply_def)
next
  fix n p r
  assume "orgName' = JString n \<and> n \<noteq> '''' \<and> prompt' = JString p \<and> p \<noteq> ''''
          \<and> rating' = JNumber r \<and> \<not> rejects e PromptFindOne
          \<and> (\<forall>d \<in> set (prompts s). \<not> (p_orgName d = n \<and> prompt d = p))"
  then show "status (response (post_rate e s orgName' prompt' rating' feedback')) = 404"
    using Prompt_find_one_None [of s "\<lambda>x. x = n" "\<lambda>x. x = p"]
    by (simp add: post_rate_def reply_def)
next
  assume "status (response (post_rate e s orgName' prompt' rating' feedback')) \<in> {400, 404}"
  then show "db (post_rate e s orgName' prompt' rating' feedback') = s"
    by (auto simp: post_rate_def reply_def Let_def split: if_splits option.splits)
qed

theorem rate_400_404_witness:
  "status (response (post_rate demo_env demo_store (JString ''acme'') (JString ''zzz'')
       (JNumber (Num 5)) None)) = 404
   \<and> db (post_rate demo_env demo_store (JString ''acme'') (JString ''zzz'') (JNumber (Num 5))
       None) = demo_store
   \<and> status (response (post_rate demo_env demo_store (JString ''acme'') (JString ''b'')
       (JString ''5'') None)) = 400"
proof -
  have absent: "\<forall>d \<in> set (prompts demo_store). \<not> (p_orgName d = ''acme'' \<and> prompt d = ''zzz'')"
    by (simp add: demo_store_def gen_def)
  have ok: "\<not> rejects demo_env PromptFindOne"
    by (simp add: demo_env_def)
  from rate_400_404 [of demo_env demo_store "JString ''acme''" "JString ''zzz''"
      "JNumber (Num 5)" None] absent ok
  have "status (response (post_rate demo_env demo_store (JString ''acme'') (JString ''zzz'')
       (JNumber (Num 5)) None)) = 404
    \<and> db (post_rate demo_env demo_store (JString ''acme'') (JString ''zzz'') (JNumber (Num 5))
       None) = demo_store"
    by simp
  moreover
  from rate_400_404 [of demo_env demo_store "JString ''acme''" "JString ''b''"
      "JString ''5''" None]
  have "status (response (post_rate demo_env demo_store (JString ''acme'') (JString ''b'')
       (JString ''5'') None)) = 400"
    by simp
  ultimately show ?thesis
    by simp
qed

theorem rate_400_404_counterexample:
  "status (response (post_rate demo_env demo_store (JNumber (Num 0)) (JString ''b'')
       (JNumber (Num 5)) None)) = 400
   \<and> JNumber (Num 0) \<noteq> JUndefined \<and> JNumber (Num 0) \<noteq> JNull
   \<and> JString ''b'' \<noteq> JUndefined \<and> JString ''b'' \<noteq> JNull
   \<and> typeof (JNumber (Num 5)) = ''number''"
  by (simp add: post_rate_def reply_def)

lemma post_rate_found:
  assumes "n \<noteq> ''''" and "p \<noteq> ''''"
    and "i < length (prompts s)"
    and "p_orgName (prompts s ! i) = n" and "prompt (prompts s ! i) = p"
    and "\<forall>j<i. \<not> (p_orgName (prompts s ! j) = n \<and> prompt (prompts s ! j) = p)"
    and "\<not> rejects e PromptFindOne" and "\<not> rejects e PromptSave"
  shows "post_rate e s (JString n) (JString p) (JNumber r) fb =
           reply 200 (Message ''Feedback recorded'')
             (s\<lparr>prompts := (prompts s)[i := (prompts s ! i)\<lparr>rating := Some r, feedback := fb\<rparr>]\<rparr>)
             []"
proof -
  from assms(3-6) have "Prompt_find_one s (\<lambda>x. x = n) (\<lambda>x. x = p) = Some i"
    by (simp add: Prompt_find_one_Some)
  with assms(1,2,7,8) show ?thesis
    by (simp add: post_rate_def)
qed

text \<open>
  Claim C10. Let a valid rating request find its Prompt: the first document, at position
  \<open>i\<close>, with the request's \<open>orgName\<close> and \<open>prompt\<close>; and let the two store
  operations not fail. Then the Organizations and every other Prompt are as before, and
  the document at \<open>i\<close> keeps its \<open>orgName\<close>, \<open>prompt\<close> and \<open>content\<close>. Its rating is
  the request's rating and its feedback is the request's feedback; in particular a request
  without feedback leaves the document without feedback, whatever it had before.
\<close>

theorem rate_changes_rating_and_feedback_only:
  assumes "n \<noteq> ''''" and "p \<noteq> ''''"
    and "i < length (prompts s)"
    and "p_orgName (prompts s ! i) = n" and "prompt (prompts s ! i) = p"
    and "\<forall>j<i. \<not> (p_orgName (prompts s ! j) = n \<and> prompt (prompts s ! j) = p)"
    and "\<not> rejects e PromptFindOne" and "\<not> rejects e PromptSave"
    and "s' = db (post_rate e s (JString n) (JString p) (JNumber r) fb)"
  shows "organizations s' = organizations s
         \<and> length (prompts s') = length (prompts s)
         \<and> (\<forall>j<length (prompts s). j \<noteq> i \<longrightarrow> prompts s' ! j = prompts s ! j)
         \<and> p_orgName (prompts s' ! i) = p_orgName (prompts s ! i)
         \<and> prompt (prompts s' ! i) = prompt (prompts s ! i)
         \<and> content (prompts s' ! i) = content (prompts s ! i)
         \<and> rating (prompts s' ! i) = Some r
         \<and> feedback (prompts s' ! i) = fb
         \<and> (fb = None \<longrightarrow> feedback (prompts s' ! i) = None)"
  using assms(3) unfolding assms(9) post_rate_found [OF assms(1-8)]
  by (simp add: reply_def)

theorem rate_changes_rating_and_feedback_only_witness:
  "feedback (prompts rated_store ! 0) = Some ''nice''
   \<and> rating (prompts (db (post_rate demo_env rated_store (JString ''acme'') (JString ''a'')
       (JNumber (Num 5)) None)) ! 0) = Some (Num 5)
   \<and> feedback (prompts (db (post_rate demo_env rated_store (JString ''acme'') (JString ''a'')
       (JNumber (Num 5)) None)) ! 0) = None
   \<and> content (prompts (db (post_rate demo_env rated_store (JString ''acme'') (JString ''a'')
       (JNumber (Num 5)) None)) ! 0) = ''text''
   \<and> organizations (db (post_rate demo_env rated_store (JString ''acme'') (JString ''a'')
       (JNumber (Num 5)) None)) = [acme]"
proof -
  have before: "0 < length (prompts rated_store)"
    "p_orgName (prompts rated_store ! 0) = ''acme''"
    "prompt (prompts rated_store ! 0) = ''a''"
    "\<forall>j<0. \<not> (p_orgName (prompts rated_store ! j) = ''acme''
        \<and> prompt (prompts rated_store ! j) = ''a'')"
    "feedback (prompts rated_store ! 0) = Some ''nice''"
    "content (prompts rated_store ! 0) = ''text''"
    "organizations rated_store = [acme]"
    by (simp_all add: rated_store_def gen_def)
  from rate_changes_rating_and_feedback_only [OF _ _ before(1-4) demo_env_works
      demo_env_works refl, of "Num 5" None] before(5-7)
  show ?thesis
    by simp
qed

section \<open>Facts about number formatting\<close>

lemma nat_digits_small: "n < 10 \<Longrightarrow> nat_digits n = [digit n]"
  by (subst nat_digits.simps) simp

lemma nat_digits_step: "10 \<le> n \<Longrightarrow> nat_digits n = nat_digits (n div 10) @ [digit (n mod 10)]"
  by (subst nat_digits.simps) simp

lemma nat_digits_nonempty: "nat_digits n \<noteq> []"
  by (subst nat_digits.simps) simp

lemma nat_digits_hundreds:
  assumes "100 \<le> n"
  shows "nat_digits n = nat_digits (n div 100) @ [digit (n mod 100 div 10), digit (n mod 10)]"
proof -
  from assms have "10 \<le> n" and "10 \<le> n div 10"
    by simp_all
  then have "nat_digits n = (nat_digits (n div 10 div 10) @ [digit (n div 10 mod 10)])
      @ [digit (n mod 10)]"
    by (simp add: nat_digits_step)
  moreover have "n div 10 div 10 = n div 100"
    by (simp add: div_mult2_eq [symmetric])
  moreover have "n mod 100 = 10 * (n div 10 mod 10) + n mod 10"
    using mod_mult2_eq [of n 10 10] by simp
  then have "n div 10 mod 10 = n mod 100 div 10"
    by simp
  ultimately show ?thesis
    by simp
qed

lemma digit_0: "digit 0 = CHR ''0''"
  by (simp add: digit_def)

lemma point_before_last_two:
  "(let m = (if n = 0 then ''0'' else nat_digits n);
        k = length m;
        m = (if k \<le> 2 then replicate (2 + 1 - k) (CHR ''0'') @ m else m);
        k = (if k \<le> 2 then 2 + 1 else k)
    in take (k - 2) m @ ''.'' @ drop (k - 2) m)
   = nat_digits (n div 100) @ ''.'' @ [digit (n mod 100 div 10), digit (n mod 10)]"
proof -
  consider "n < 10" | "10 \<le> n" "n < 100" | "100 \<le> n"
    by linarith
  then show ?thesis
  proof cases
    case 1
    then have "n div 100 = 0" "n mod 100 div 10 = 0" "n mod 10 = n"
      by simp_all
    with 1 show ?thesis
      by (simp add: nat_digits_small digit_0 numeral_3_eq_3)
  next
    case 2
    then have "n div 100 = 0" "n mod 100 div 10 = n div 10" "n div 10 < 10"
      by simp_all
    with 2 show ?thesis
      by (simp add: nat_digits_step nat_digits_small digit_0)
  next
    case 3
    then have "n \<noteq> 0" by simp
    have "length (nat_digits (n div 100)) \<noteq> 0"
      using nat_digits_nonempty by simp
    with 3 \<open>n \<noteq> 0\<close> show ?thesis
      by (simp add: nat_digits_hundreds Let_def)
  qed
qed

lemma toFixed_2:
  assumes "\<bar>x\<bar> < 10 ^ 21"
  shows "toFixed (Num x) 2 =
           Printed ((if x < 0 then ''-'' else '''')
             @ nat_digits (nat \<lfloor>\<bar>x\<bar> * 100 + 1 / 2\<rfloor> div 100) @ ''.''
             @ [digit (nat \<lfloor>\<bar>x\<bar> * 100 + 1 / 2\<rfloor> mod 100 div 10),
                digit (nat \<lfloor>\<bar>x\<bar> * 100 + 1 / 2\<rfloor> mod 10)])"
proof -
  define h where "h = nat \<lfloor>\<bar>x\<bar> * 100 + 1 / 2\<rfloor>"
  have abs: "(if x < 0 then - x else x) = \<bar>x\<bar>"
    by simp
  have small: "(10 ^ 21 \<le> \<bar>x\<bar>) = False"
    using assms by simp
  have pw: "(10::rat) ^ 2 = 100"
    by simp
  have "toFixed (Num x) 2 = Printed ((if x < 0 then ''-'' else '''') @
      (let m = (if h = 0 then ''0'' else nat_digits h);
           k = length m;
           m = (if k \<le> 2 then replicate (2 + 1 - k) (CHR ''0'') @ m else m);
           k = (if k \<le> 2 then 2 + 1 else k)
       in take (k - 2) m @ ''.'' @ drop (k - 2) m))"
    unfolding toFixed.simps abs Let_def small pw h_def [symmetric]
    by simp
  also have "\<dots> = Printed ((if x < 0 then ''-'' else '''') @
      nat_digits (h div 100) @ ''.'' @ [digit (h mod 100 div 10), digit (h mod 10)])"
    by (simp only: point_before_last_two)
  finally show ?thesis
    unfolding h_def .
qed

section \<open>Facts about reading a text with two decimal places\<close>

lemma digit_value_digit: "d < 10 \<Longrightarrow> digit_value (digit d) = Some d"
proof -
  assume "d < 10"
  then have "d \<in> set [0, 1, 2, 3, 4, 5, 6, 7, 8, 9]"
    by (simp only: set_simps insert_iff empty_iff) arith
  then show ?thesis
    by (auto simp: digit_def digit_value_def)
qed

lemma digits_value_append:
  "digits_value acc (xs @ ys) =
     (case digits_value acc xs of None \<Rightarrow> None | Some v \<Rightarrow> digits_value v ys)"
  by (induction xs arbitrary: acc) (auto split: option.splits)

lemma digits_value_nat_digits: "digits_value 0 (nat_digits n) = Some n"
proof (induction n rule: nat_digits.induct)
  case (1 n)
  show ?case
  proof (cases "n < 10")
    case True
    then show ?thesis
      by (simp add: nat_digits_small digit_value_digit)
  next
    case False
    with 1 have "digits_value 0 (nat_digits (n div 10)) = Some (n div 10)"
      by simp
    moreover have "digit_value (digit (n mod 10)) = Some (n mod 10)"
      by (simp add: digit_value_digit)
    ultimately show ?thesis
      using False by (simp add: nat_digits_step digits_value_append)
  qed
qed

lemma nat_digits_no_sign: "take 1 (nat_digits n @ cs) \<noteq> ''-''"
proof -
  obtain c r where cr: "nat_digits n = c # r"
    using nat_digits_nonempty [of n] by (cases "nat_digits n") auto
  have "digits_value 0 (c # r) = Some n"
    using digits_value_nat_digits [of n] by (simp add: cr)
  then have "digit_value c \<noteq> None"
    by (auto split: option.splits)
  then have "c \<noteq> CHR ''-''"
    by (auto simp: digit_value_def)
  then show ?thesis
    by (simp add: cr)
qed

lemma two_decimal_value_digits:
  assumes "a < 10" and "b < 10"
  shows "two_decimal_value ((if neg then ''-'' else '''') @ nat_digits w @ ''.'' @ [digit a, digit b])
           = Some ((if neg then - 1 else 1) * (of_nat w + of_nat (10 * a + b) / 100))"
proof -
  let ?u = "nat_digits w @ ''.'' @ [digit a, digit b]"
  let ?t = "(if neg then ''-'' else '''') @ ?u"
  have sign: "(take 1 ?t = ''-'') = neg"
    using nat_digits_no_sign [of w "''.'' @ [digit a, digit b]"] by simp
  have rest: "(if neg then drop 1 ?t else ?t) = ?u"
    by simp
  have len: "length ?u = length (nat_digits w) + 3" "\<not> length ?u < 4"
    using nat_digits_nonempty [of w] by (simp_all add: Suc_le_eq)
  have parts: "take (length ?u - 3) ?u = nat_digits w"
    "take 1 (drop (length ?u - 3) ?u) = ''.''"
    "drop (length ?u - 2) ?u = [digit a, digit b]"
    by simp_all
  have cents: "digits_value 0 [digit a, digit b] = Some (10 * a + b)"
    using assms by (simp add: digit_value_digit)
  show ?thesis
    unfolding two_decimal_value_def Let_def sign rest
    using len(2) by (simp only: parts digits_value_nat_digits cents) simp
qed

lemma hundredths_split:
  "of_nat (h div 100) + of_nat (10 * (h mod 100 div 10) + h mod 10) / 100 = (of_nat h / 100 :: rat)"
proof -
  have "h mod 100 mod 10 = h mod 10"
    by (simp add: mod_mod_cancel)
  then have cents: "10 * (h mod 100 div 10) + h mod 10 = h mod 100"
    using div_mult_mod_eq [of "h mod 100" 10] by simp
  have "h = 100 * (h div 100) + h mod 100"
    by simp
  then have "(of_nat h :: rat) = of_nat (100 * (h div 100) + h mod 100)"
    by (rule arg_cong)
  then have "(of_nat h :: rat) = 100 * of_nat (h div 100) + of_nat (h mod 100)"
    by (simp only: of_nat_add of_nat_mult of_nat_numeral)
  then show ?thesis
    unfolding cents by (simp add: add_divide_distrib)
qed

lemma toFixed_2_value:
  assumes "\<bar>x\<bar> < 10 ^ 21"
  shows "\<exists>t. toFixed (Num x) 2 = Printed t \<and> two_decimal_value t = Some (nearest_hundredth x)"
proof -
  define h where "h = nat \<lfloor>\<bar>x\<bar> * 100 + 1 / 2\<rfloor>"
  let ?t = "(if x < 0 then ''-'' else '''') @ nat_digits (h div 100) @ ''.''
      @ [digit (h mod 100 div 10), digit (h mod 10)]"
  have printed: "toFixed (Num x) 2 = Printed ?t"
    unfolding h_def by (rule toFixed_2 [OF assms])
  have "0 \<le> \<lfloor>\<bar>x\<bar> * 100 + 1 / 2\<rfloor>"
    by simp
  then have h: "(of_nat h :: rat) = of_int \<lfloor>\<bar>x\<bar> * 100 + 1 / 2\<rfloor>"
    unfolding h_def by (metis of_nat_nat)
  have "two_decimal_value ?t = Some ((if x < 0 then - 1 else 1)
      * (of_nat (h div 100) + of_nat (10 * (h mod 100 div 10) + h mod 10) / 100))"
    by (rule two_decimal_value_digits) simp_all
  also have "\<dots> = Some (nearest_hundredth x)"
    unfolding hundredths_split h nearest_hundredth_def by simp
  finally show ?thesis
    using printed by blast
qed

section \<open>Analytics\<close>

lemma slice_last_rev_take: "slice_last k xs = rev (take k (rev xs))"
  by (simp add: slice_last_def rev_take)

lemma length_slice_last: "length (slice_last k xs) = min k (length xs)"
  by (auto simp: slice_last_def)

lemma get_analytics_found:
  assumes "\<not> rejects e PromptFind" and "Prompt_find s n \<noteq> []"
  shows "get_analytics e s n =
           reply 200
             (Analytics \<lparr>totalGenerated = length (Prompt_find s n),
                         averageRating = toFixed (avgRating (Prompt_find s n)) 2,
                         last5Feedbacks = map entry_of (slice_last 5 (Prompt_find s n))\<rparr>) s []"
  using assms by (simp add: get_analytics_def Let_def)

text \<open>
  Claim C9. Let the retrieval not fail, and let \<open>ps\<close> be the Prompts of the requested
  organization in store order. If there are none, the analytics handler answers 404.
  Otherwise it answers 200, \<open>totalGenerated\<close> is the number of these Prompts,
  \<open>last5Feedbacks\<close> has \<open>min 5 totalGenerated\<close> entries, and they are the last five
  Prompts of \<open>ps\<close> (all of them when there are fewer), in store order, each reduced to
  its \<open>prompt\<close>, \<open>rating\<close> and \<open>feedback\<close>.
\<close>

theorem analytics_404_or_last_five:
  assumes "\<not> rejects e PromptFind"
    and "ps = filter (\<lambda>d. p_orgName d = n) (prompts s)"
  shows "(ps = [] \<longrightarrow> status (response (get_analytics e s n)) = 404)
         \<and> (ps \<noteq> [] \<longrightarrow>
              (\<exists>a. response (get_analytics e s n) = \<lparr>status = 200, body = Analytics a\<rparr>
                 \<and> totalGenerated a = length ps
                 \<and> length (last5Feedbacks a) = min 5 (totalGenerated a)
                 \<and> last5Feedbacks a =
                     map (\<lambda>d. \<lparr>e_prompt = prompt d, e_rating = rating d,
                                e_feedback = feedback d\<rparr>)
                       (rev (take 5 (rev ps)))))"
proof (intro conjI impI)
  assume "ps = []"
  with assms show "status (response (get_analytics e s n)) = 404"
    by (simp add: get_analytics_def Prompt_find_def reply_def)
next
  assume "ps \<noteq> []"
  with assms have found: "Prompt_find s n = ps" "Prompt_find s n \<noteq> []"
    by (simp_all add: Prompt_find_def)
  have entries: "map entry_of (slice_last 5 ps) =
      map (\<lambda>d. \<lparr>e_prompt = prompt d, e_rating = rating d, e_feedback = feedback d\<rparr>)
        (rev (take 5 (rev ps)))"
    by (simp add: slice_last_rev_take entry_of_def)
  let ?a = "\<lparr>totalGenerated = length ps,
             averageRating = toFixed (avgRating ps) 2,
             last5Feedbacks = map entry_of (slice_last 5 ps)\<rparr>"
  have "response (get_analytics e s n) = \<lparr>status = 200, body = Analytics ?a\<rparr>"
    using get_analytics_found [OF assms(1) found(2)] found(1) by (simp add: reply_def)
  moreover have "length (last5Feedbacks ?a) = min 5 (totalGenerated ?a)"
    by (simp add: length_slice_last)
  moreover have "last5Feedbacks ?a =
      map (\<lambda>d. \<lparr>e_prompt = prompt d, e_rating = rating d, e_feedback = feedback d\<rparr>)
        (rev (take 5 (rev ps)))"
    using entries by simp
  ultimately show "\<exists>a. response (get_analytics e s n) = \<lparr>status = 200, body = Analytics a\<rparr>
      \<and> totalGenerated a = length ps
      \<and> length (last5Feedbacks a) = min 5 (totalGenerated a)
      \<and> last5Feedbacks a =
          map (\<lambda>d. \<lparr>e_prompt = prompt d, e_rating = rating d, e_feedback = feedback d\<rparr>)
            (rev (take 5 (rev ps)))"
    by (intro exI [of _ ?a]) simp
qed

theorem analytics_404_or_last_five_witness:
  "\<exists>a. response (get_analytics demo_env demo_store ''acme'') = \<lparr>status = 200, body = Analytics a\<rparr>
      \<and> totalGenerated a = 3
      \<and> last5Feedbacks a =
          [\<lparr>e_prompt = ''a'', e_rating = Some (Num 4), e_feedback = None\<rparr>,
           \<lparr>e_prompt = ''b'', e_rating = None, e_feedback = None\<rparr>,
           \<lparr>e_prompt = ''c'', e_rating = Some (Num 2), e_feedback = None\<rparr>]"
proof -
  have ps: "prompts demo_store = filter (\<lambda>d. p_orgName d = ''acme'') (prompts demo_store)"
    by (simp add: demo_store_def gen_def)
  have len: "length (prompts demo_store) = 3"
    and entries: "map (\<lambda>d. \<lparr>e_prompt = prompt d, e_rating = rating d, e_feedback = feedback d\<rparr>)
        (rev (take 5 (rev (prompts demo_store)))) =
          [\<lparr>e_prompt = ''a'', e_rating = Some (Num 4), e_feedback = None\<rparr>,
           \<lparr>e_prompt = ''b'', e_rating = None, e_feedback = None\<rparr>,
           \<lparr>e_prompt = ''c'', e_rating = Some (Num 2), e_feedback = None\<rparr>]"
    by (simp_all add: demo_store_def gen_def)
  have nonempty: "prompts demo_store \<noteq> []"
    by (simp add: demo_store_def)
  from analytics_404_or_last_five [OF demo_env_works ps] nonempty
  show ?thesis
    by (simp only: len entries) blast
qed

lemma js_add_Num:
  assumes "js_add x y = Num v"
  obtains a b where "x = Num a" and "y = Num b"
  using assms by (cases x; cases y) auto

lemma js_div_length_Num:
  assumes "js_div_length x n = Num v"
  obtains a where "x = Num a"
  using assms by (cases x) auto

lemma rating_if_set_Num:
  assumes "rating_if_set d = Num w"
  shows "rating_or_0 d = Num w"
  using assms by (auto simp: rating_if_set_def rating_or_0_def split: option.splits)

lemma sum_of_ratings_finite:
  assumes "foldl js_add a (map rating_if_set ps) = Num v"
  shows "foldl (\<lambda>sum p. js_add sum (rating_or_0 p)) a ps = Num v"
  using assms
proof (induction ps arbitrary: v rule: rev_induct)
  case Nil
  then show ?case by simp
next
  case (snoc d ps)
  from snoc.prems
  have sum: "js_add (foldl js_add a (map rating_if_set ps)) (rating_if_set d) = Num v"
    by simp
  then obtain u w where u: "foldl js_add a (map rating_if_set ps) = Num u"
    and w: "rating_if_set d = Num w"
    by (rule js_add_Num)
  with sum have v: "binary64 (u + w) = Num v"
    by simp
  from snoc.IH [OF u] rating_if_set_Num [OF w] v show ?case
    by simp
qed

lemma avgRating_finite:
  assumes "binary64_mean (map rating_if_set ps) = Num m"
  shows "avgRating ps = Num m"
proof -
  from assms obtain v where v: "foldl js_add (Num 0) (map rating_if_set ps) = Num v"
    unfolding binary64_mean_def by (auto elim: js_div_length_Num)
  with assms have "js_div_length (Num v) (length ps) = Num m"
    by (simp add: binary64_mean_def)
  with sum_of_ratings_finite [OF v] show ?thesis
    by (simp add: avgRating_def)
qed

lemma mean_of_4_0_2:
  "js_div_length (js_add (js_add (js_add (Num 0) (Num 4)) (Num 0)) (Num 2)) 3 = Num 2"
  "toFixed (Num 2) 2 = Printed ''2.00''"
  by code_simp+

text \<open>
  Claim C2, for the mean that binary64 arithmetic computes. Let the retrieval not fail and
  let \<open>ps\<close>, the Prompts of the requested organization, be non-empty. Take of each the
  rating where it is set and 0 where it is not, add these in store order from 0 and divide
  by their number, rounding every result to binary64. If this mean is a finite value
  \<open>m\<close> of magnitude below \<open>10^21\<close>, then the answer is 200 and \<open>averageRating\<close> is a
  text with exactly two decimal places that denotes \<open>m\<close> rounded to the nearest
  hundredth. In particular, for the ratings \<open>[4, unset, 2]\<close> the handler returns
  \<open>totalGenerated = 3\<close> and \<open>averageRating = "2.00"\<close>.

  Neither the rounding nor the bound can be dropped, as the evaluations after the theorem
  show: the ratings \<open>10^16\<close>, 1 and \<open>-10^16\<close> have the arithmetic mean \<open>1/3\<close> and give
  \<open>"0.00"\<close>; forty Prompts of which one is rated 3 have the arithmetic mean \<open>3/40\<close> and
  give \<open>"0.07"\<close>; and a single rating of \<open>10^21\<close> is printed in exponential notation.
\<close>

theorem analytics_average_rating:
  assumes "\<not> rejects e PromptFind"
    and "ps = filter (\<lambda>d. p_orgName d = n) (prompts s)"
    and "ps \<noteq> []"
  shows "(\<forall>m. binary64_mean (map rating_if_set ps) = Num m \<and> \<bar>m\<bar> < 10 ^ 21 \<longrightarrow>
            (\<exists>t. response (get_analytics e s n) =
                   \<lparr>status = 200,
                    body = Analytics \<lparr>totalGenerated = length ps, averageRating = Printed t,
                      last5Feedbacks = map entry_of (slice_last 5 ps)\<rparr>\<rparr>
                 \<and> two_decimal_value t = Some (nearest_hundredth m)))
         \<and> (map rating ps = [Some (Num 4), None, Some (Num 2)] \<longrightarrow>
              (\<exists>a. response (get_analytics e s n) = \<lparr>status = 200, body = Analytics a\<rparr>
                 \<and> totalGenerated a = 3 \<and> averageRating a = Printed ''2.00''))"
proof -
  from assms have found: "Prompt_find s n = ps" "Prompt_find s n \<noteq> []"
    by (simp_all add: Prompt_find_def)
  have out: "get_analytics e s n =
      reply 200 (Analytics \<lparr>totalGenerated = length ps, averageRating = toFixed (avgRating ps) 2,
        last5Feedbacks = map entry_of (slice_last 5 ps)\<rparr>) s []"
    using get_analytics_found [OF assms(1) found(2)] found(1) by simp
  have general: "\<exists>t. response (get_analytics e s n) =
        \<lparr>status = 200,
         body = Analytics \<lparr>totalGenerated = length ps, averageRating = Printed t,
           last5Feedbacks = map entry_of (slice_last 5 ps)\<rparr>\<rparr>
      \<and> two_decimal_value t = Some (nearest_hundredth m)"
    if mean: "binary64_mean (map rating_if_set ps) = Num m" and bound: "\<bar>m\<bar> < 10 ^ 21" for m
  proof -
    from toFixed_2_value [OF bound] obtain t
      where t: "toFixed (Num m) 2 = Printed t" "two_decimal_value t = Some (nearest_hundredth m)"
      by blast
    from avgRating_finite [OF mean] t show ?thesis
      by (simp add: out reply_def)
  qed
  have example: "\<exists>a. response (get_analytics e s n) = \<lparr>status = 200, body = Analytics a\<rparr>
      \<and> totalGenerated a = 3 \<and> averageRating a = Printed ''2.00''"
    if ratings: "map rating ps = [Some (Num 4), None, Some (Num 2)]"
  proof -
    from ratings obtain d1 d2 d3 where ps: "ps = [d1, d2, d3]"
      and r: "rating d1 = Some (Num 4)" "rating d2 = None" "rating d3 = Some (Num 2)"
      by (auto simp: map_eq_Cons_conv)
    from r have r0: "rating_or_0 d1 = Num 4" "rating_or_0 d2 = Num 0" "rating_or_0 d3 = Num 2"
      by (simp_all add: rating_or_0_def)
    have len: "length [d1, d2, d3] = 3"
      by simp
    have "avgRating ps = Num 2"
      by (simp only: avgRating_def ps foldl.simps r0 len mean_of_4_0_2(1))
    then have "toFixed (avgRating ps) 2 = Printed ''2.00''"
      by (simp only: mean_of_4_0_2(2))
    then show ?thesis
      using len by (simp add: out reply_def ps del: toFixed.simps)
  qed
  from general example show ?thesis
    by blast
qed

theorem analytics_average_rating_witness:
  "\<exists>a. response (get_analytics demo_env demo_store ''acme'') = \<lparr>status = 200, body = Analytics a\<rparr>
      \<and> totalGenerated a = 3 \<and> averageRating a = Printed ''2.00''"
proof -
  have ps: "prompts demo_store = filter (\<lambda>d. p_orgName d = ''acme'') (prompts demo_store)"
    by (simp add: demo_store_def gen_def)
  have nonempty: "prompts demo_store \<noteq> []"
    and ratings: "map rating (prompts demo_store) = [Some (Num 4), None, Some (Num 2)]"
    by (simp_all add: demo_store_def gen_def)
  from analytics_average_rating [OF demo_env_works ps nonempty] ratings
  show ?thesis
    by simp
qed

theorem analytics_average_rating_counterexample:
  "averageRating (case body (response (get_analytics demo_env cancelling_store ''acme'')) of
       Analytics a \<Rightarrow> a) = Printed ''0.00''
   \<and> arithmetic_mean [10 ^ 16, 1, - (10 ^ 16)] = 1 / 3
   \<and> two_decimal_value ''0.00'' \<noteq> Some (nearest_hundredth (1 / 3))
   \<and> averageRating (case body (response (get_analytics demo_env forty_store ''acme'')) of
       Analytics a \<Rightarrow> a) = Printed ''0.07''
   \<and> arithmetic_mean (3 # replicate 39 0) = 3 / 40
   \<and> two_decimal_value ''0.07'' \<noteq> Some (nearest_hundredth (3 / 40))
   \<and> averageRating (case body (response (get_analytics demo_env huge_store ''acme'')) of
       Analytics a \<Rightarrow> a) = Exponential (10 ^ 21)"
  by code_simp

section \<open>A rating seen through analytics\<close>







end
